theory Spec2Isabelle
  imports Main
begin

section \<open>Error catalogue (errors.go)\<close>

text \<open>
  A Go \<^verbatim>\<open>interface{}\<close> value, as far as the package stores one in \<^verbatim>\<open>Error.Data\<close> or a
  handler stores one in \<^verbatim>\<open>Response.Result\<close>: a string, an integer, or a Go \<^verbatim>\<open>error\<close> value
  (kept by its message). The nil interface is \<open>None\<close> of \<open>any option\<close>.
\<close>

datatype any = VString string | VInt int | VError string

type_synonym ErrorCode = int

record Error =
  Code :: ErrorCode
  Message :: string
  Data :: "any option"

abbreviation errCodeParseError :: ErrorCode where "errCodeParseError \<equiv> - 32700"
abbreviation errCodeInvalidRequest :: ErrorCode where "errCodeInvalidRequest \<equiv> - 32600"
abbreviation errCodeMethodNotFound :: ErrorCode where "errCodeMethodNotFound \<equiv> - 32601"
abbreviation errCodeInvalidParams :: ErrorCode where "errCodeInvalidParams \<equiv> - 32602"
abbreviation ErrCodeInternal :: ErrorCode where "ErrCodeInternal \<equiv> - 32603"
abbreviation errCodeInvalidRPCVersion :: ErrorCode where "errCodeInvalidRPCVersion \<equiv> - 32001"
abbreviation errCodeExecutionTimeout :: ErrorCode where "errCodeExecutionTimeout \<equiv> - 32002"

text \<open>
  Modelled from the spec: \<^verbatim>\<open>errCodeInternal\<close>, the constant \<^verbatim>\<open>Manager.Handle\<close> passes to
  \<^verbatim>\<open>newError\<close> for a nil reader or writer, is declared nowhere in the sources (errors.go
  declares the exported \<^verbatim>\<open>ErrCodeInternal\<close>). The specification lists the internal error as
  code -32603.
\<close>

abbreviation errCodeInternal :: ErrorCode where "errCodeInternal \<equiv> - 32603"

definition newError :: "ErrorCode \<Rightarrow> any option \<Rightarrow> Error" where
  "newError code d =
     \<lparr>Code = code,
      Message =
        (if code = errCodeParseError then ''Parse error''
         else if code = errCodeInvalidRequest then ''Invalid Request''
         else if code = errCodeMethodNotFound then ''Method not found''
         else if code = errCodeInvalidParams then ''Invalid method parameter(s)''
         else if code = ErrCodeInternal then ''Internal error''
         else if code = errCodeInvalidRPCVersion then ''JSON RPC Version must be 2.0''
         else if code = errCodeExecutionTimeout then ''Method execution timeout''
         else ''''),
      Data = d\<rparr>"

definition NewError :: "ErrorCode \<Rightarrow> string \<Rightarrow> Error" where
  "NewError code message = \<lparr>Code = code, Message = message, Data = None\<rparr>"


section \<open>Time and contexts\<close>

text \<open>
  Time is counted in nanoseconds, the unit of \<^verbatim>\<open>time.Duration\<close>, from the moment
  \<^verbatim>\<open>Handle\<close> is called. A \<^verbatim>\<open>context.Context\<close> is kept by the one thing dispatch observes of
  it: the instant at which its \<^verbatim>\<open>Done\<close> channel closes (by deadline or by cancellation),
  if it ever does. \<^verbatim>\<open>context.Background()\<close> is never done.
\<close>

datatype "context" = Background | DoneAt nat

abbreviation Second :: int where "Second \<equiv> 1000000000"

text \<open>
  \<^verbatim>\<open>context.WithTimeout(parent, d)\<close> called at instant \<open>now\<close>: the child is done at
  \<open>now + d\<close>, or when the parent is done if that is earlier. A duration \<open>d \<le> 0\<close> gives a
  context that is done already.
\<close>

fun WithTimeout :: "context \<Rightarrow> nat \<Rightarrow> int \<Rightarrow> context" where
  "WithTimeout Background now d = DoneAt (nat (int now + d))"
| "WithTimeout (DoneAt p) now d = DoneAt (min p (nat (int now + d)))"

text \<open>Time left at \<open>now\<close> until the context is done; \<open>None\<close>: it never is.\<close>

fun untilDone :: "context \<Rightarrow> nat \<Rightarrow> nat option" where
  "untilDone Background now = None"
| "untilDone (DoneAt t) now = Some (t - now)"


section \<open>Message model (jrpc2go.go)\<close>

text \<open>The JSON RPC version supported.\<close>

abbreviation version :: string where "version \<equiv> ''2.0''"

text \<open>
  \<^verbatim>\<open>json.RawMessage\<close> is the raw bytes of a JSON value. The pointer fields \<^verbatim>\<open>ID\<close> and
  \<^verbatim>\<open>Params\<close> are options, \<open>None\<close> for nil; so is the unexported \<^verbatim>\<open>ctx\<close>.
\<close>

type_synonym RawMessage = string

record Request =
  Version :: string
  Method :: string
  ID :: "RawMessage option"
  Params :: "RawMessage option"
  ctx :: "context option"

text \<open>
  The fields of \<^verbatim>\<open>Response\<close> named \<^verbatim>\<open>Version\<close> and \<^verbatim>\<open>ID\<close> in the source are
  \<open>RespVersion\<close> and \<open>RespID\<close> here, apart from those of \<open>Request\<close>.
\<close>

record Response =
  RespVersion :: string
  RespID :: "RawMessage option"
  Result :: "any option"
  Error :: "Error option"

text \<open>
  What a call can end in other than a return: a panic with a message, the run-time panic
  of a nil pointer dereference, or blocking for ever.
\<close>

datatype abort = Panic string | NilDereference | BlocksForever

text \<open>
  \<^verbatim>\<open>ParseParams\<close> has a pointer receiver and a target \<open>v\<close> of type \<^verbatim>\<open>interface{}\<close>. The
  receiver is \<open>None\<close> when nil. A non-nil \<open>v\<close> is, as the doc comment of the method has it, a
  pointer to the value the result is stored in: \<open>Some x\<close> is a pointer to a variable that holds
  \<open>x\<close>. \<^verbatim>\<open>json.Unmarshal\<close> belongs to the Go library and is a parameter: given the raw bytes
  and the variable's content it returns the decode error, if any, and the content it leaves
  in the variable. The result is the receiver as the call leaves it, the \<^verbatim>\<open>*Error\<close>
  returned and the target's content afterwards.
\<close>

definition ParseParams ::
  "(RawMessage \<Rightarrow> 'v \<Rightarrow> string option \<times> 'v) \<Rightarrow> Request option \<Rightarrow> 'v option
     \<Rightarrow> abort + (Request option \<times> Error option \<times> 'v option)" where
  "ParseParams Unmarshal r v =
     (case v of
        None \<Rightarrow>
          Inr (r, Some (newError errCodeInvalidParams
                 (Some (VString ''v can't be nil to parse request parameters''))), v)
      | Some x \<Rightarrow>
          (case r of
             None \<Rightarrow> Inl NilDereference
           | Some req \<Rightarrow>
               (case Params req of
                  None \<Rightarrow>
                    Inr (r, Some (newError errCodeInvalidParams
                           (Some (VString ''request doesn't have params''))), v)
                | Some raw \<Rightarrow>
                    (case Unmarshal raw x of
                       (Some err, x') \<Rightarrow>
                         Inr (r, Some (newError errCodeInvalidParams (Some (VError err))), Some x')
                     | (None, x') \<Rightarrow> Inr (r, None, Some x')))))"

definition Context :: "Request \<Rightarrow> context" where
  "Context r = (case ctx r of Some c \<Rightarrow> c | None \<Rightarrow> Background)"

definition WithContext :: "Request \<Rightarrow> context option \<Rightarrow> abort + Request" where
  "WithContext r c =
     (case c of
        None \<Rightarrow> Inl (Panic ''nil context'')
      | Some _ \<Rightarrow> Inr (r\<lparr>ctx := c\<rparr>))"

text \<open>\<^verbatim>\<open>newResponse\<close> reads the fields of its pointer argument, which may be nil.\<close>

definition newResponse :: "Request option \<Rightarrow> abort + Response" where
  "newResponse r =
     (case r of
        None \<Rightarrow> Inl NilDereference
      | Some req \<Rightarrow>
          Inr \<lparr>RespVersion = Version req, RespID = ID req, Result = None, Error = None\<rparr>)"


section \<open>Handlers\<close>

text \<open>
  A \<^verbatim>\<open>Method\<close> is any implementation of \<^verbatim>\<open>Execute(req *Request, resp *Response)\<close>.
  \<^verbatim>\<open>execMethod\<close> runs it in a goroutine of its own and shares the \<^verbatim>\<open>Response\<close> with it,
  so what dispatch sees of a handler is the sequence of its writes to the response and the
  time that passes between them. A run of \<^verbatim>\<open>Execute\<close> is a list of steps: \<open>Write f\<close> updates
  the shared response at once, \<open>Wait d\<close> lets \<open>d\<close> nanoseconds pass, \<open>Hang\<close> never ends. The
  handler returns when the list is exhausted. The run may depend on the request, which
  carries the context with the deadline.
\<close>

datatype step = Write "Response \<Rightarrow> Response" | Wait nat | Hang

type_synonym Method = "Request \<Rightarrow> step list"

text \<open>
  \<open>runFor b steps res\<close> runs the handler while less than \<open>b\<close> nanoseconds have passed, on the
  shared response \<open>res\<close>. It returns the response as the writes made in that time leave it,
  and \<open>Some e\<close> when the handler returned in that time, after \<open>e\<close> nanoseconds. \<open>b\<close> is the
  time left when the next step starts: with \<open>b = 0\<close> the time is up and nothing more
  happens.
\<close>

fun runFor :: "nat \<Rightarrow> step list \<Rightarrow> Response \<Rightarrow> nat option \<times> Response" where
  "runFor b [] res = (if 0 < b then Some 0 else None, res)"
| "runFor b (Write f # ss) res = (if 0 < b then runFor b ss (f res) else (None, res))"
| "runFor b (Wait d # ss) res =
     (if d < b then (case runFor (b - d) ss res of (e, res') \<Rightarrow> (map_option ((+) d) e, res'))
      else (None, res))"
| "runFor b (Hang # ss) res = (None, res)"

text \<open>The time a run asks for in all.\<close>

fun waits :: "step list \<Rightarrow> nat" where
  "waits [] = 0"
| "waits (Wait d # ss) = d + waits ss"
| "waits (s # ss) = waits ss"

text \<open>
  The \<^verbatim>\<open>select\<close> of \<^verbatim>\<open>execMethod\<close>, which waits for \<^verbatim>\<open>ctxT.Done()\<close> or for the handler's
  \<^verbatim>\<open>finish\<close> channel, whichever is ready first. The first argument is the time left until the
  context is done, \<open>None\<close> when it never is. The result is \<open>(Some e, res)\<close> when \<^verbatim>\<open>finish\<close> is taken after \<open>e\<close> nanoseconds,
  \<open>(None, res)\<close> when \<^verbatim>\<open>Done\<close> is taken; \<open>res\<close> is the shared response at that moment. The
  handler wins only when it returns before the context is done. With a context that is
  never done the handler is given more time than its run asks for in all; if it does not
  return then, it never does, and the \<^verbatim>\<open>select\<close> blocks for ever.
\<close>

fun select :: "nat option \<Rightarrow> step list \<Rightarrow> Response \<Rightarrow> abort + (nat option \<times> Response)" where
  "select (Some b) steps res = Inr (runFor b steps res)"
| "select None steps res =
     (case runFor (Suc (waits steps)) steps res of
        (None, res') \<Rightarrow> Inl BlocksForever
      | (Some e, res') \<Rightarrow> Inr (Some e, res'))"


section \<open>Method registry (ManagerBuilder, Manager)\<close>

text \<open>
  The fields \<^verbatim>\<open>timeout\<close> and \<^verbatim>\<open>methods\<close> of \<^verbatim>\<open>ManagerBuilder\<close> are \<open>mb_timeout\<close> and
  \<open>mb_methods\<close> here, apart from those of \<open>Manager\<close>. A handler passed to \<^verbatim>\<open>Add\<close> is an
  interface value, \<open>None\<close> when nil.
\<close>

record ManagerBuilder =
  mb_timeout :: int
  mb_methods :: "string \<rightharpoonup> Method"

record Manager =
  methods :: "string \<rightharpoonup> Method"
  timeout :: int

definition NewManagerBuilder :: ManagerBuilder where
  "NewManagerBuilder = \<lparr>mb_timeout = 10 * Second, mb_methods = Map.empty\<rparr>"

definition SetTimeout :: "ManagerBuilder \<Rightarrow> int \<Rightarrow> ManagerBuilder" where
  "SetTimeout mb t = mb\<lparr>mb_timeout := t\<rparr>"

definition Add :: "ManagerBuilder \<Rightarrow> string \<Rightarrow> Method option \<Rightarrow> abort + ManagerBuilder" where
  "Add mb name h =
     (if name = '''' \<or> h = None
      then Inl (Panic ''jsonrpc: method name and function should not be empty'')
      else Inr (mb\<lparr>mb_methods := (mb_methods mb)(name := h)\<rparr>))"

definition Build :: "ManagerBuilder \<Rightarrow> Manager" where
  "Build mb = \<lparr>methods = mb_methods mb, timeout = mb_timeout mb\<rparr>"


section \<open>Per-call dispatch (Manager.execMethod)\<close>

text \<open>
  \<open>execMethod m ctx now req\<close> is the call \<^verbatim>\<open>m.execMethod(ctx, req)\<close> made at instant \<open>now\<close>.
  It returns the response, as it is at the moment of the return, and the instant of the
  return. Writes a handler makes to the shared response after \<^verbatim>\<open>Done\<close> was taken race with
  the encoder and are not part of the value returned.
\<close>

definition execMethod ::
  "Manager \<Rightarrow> context \<Rightarrow> nat \<Rightarrow> Request option \<Rightarrow> abort + (Response \<times> nat)" where
  "execMethod m c now rq =
     (case newResponse rq of
        Inl a \<Rightarrow> Inl a
      | Inr res \<Rightarrow>
          (case rq of
             None \<Rightarrow> Inl NilDereference
           | Some req \<Rightarrow>
               if Version req \<noteq> version then
                 Inr (res\<lparr>Error := Some (newError errCodeInvalidRPCVersion
                                          (Some (VString (RespVersion res))))\<rparr>, now)
               else if Method req = '''' then
                 Inr (res\<lparr>Error := Some (newError errCodeMethodNotFound
                                          (Some (VString ''Method not specified or empty'')))\<rparr>, now)
               else
                 (case methods m (Method req) of
                    None \<Rightarrow>
                      Inr (res\<lparr>Error := Some (newError errCodeMethodNotFound
                                               (Some (VString (Method req))))\<rparr>, now)
                  | Some method \<Rightarrow>
                      (let ctxT = WithTimeout c now (timeout m) in
                       case WithContext req (Some ctxT) of
                         Inl a \<Rightarrow> Inl a
                       | Inr req' \<Rightarrow>
                           (case select (untilDone ctxT now) (method req') res of
                              Inl a \<Rightarrow> Inl a
                            | Inr (None, res') \<Rightarrow>
                                Inr (res'\<lparr>Error := Some (newError errCodeExecutionTimeout None)\<rparr>,
                                     now + (case untilDone ctxT now of None \<Rightarrow> 0 | Some b \<Rightarrow> b))
                            | Inr (Some e, res') \<Rightarrow>
                                Inr (if Error res' \<noteq> None then res'\<lparr>Result := None\<rparr> else res',
                                     now + e))))))"


section \<open>The Go library, as far as the package calls it\<close>

text \<open>
  An \<^verbatim>\<open>io.Reader\<close>, by what can be read from it: the bytes it delivers and the error it
  ends with (\<^verbatim>\<open>io.EOF\<close> at the end of the data, or a failure).
\<close>

record Reader =
  bytes :: string
  err :: string

text \<open>
  A \<^verbatim>\<open>bufio.Reader\<close> on top of it: the bytes not yet consumed, the error of the underlying
  reader, the bytes of the rune read last while \<^verbatim>\<open>UnreadRune\<close> may still give them back,
  and the size of the buffer.
\<close>

record bufioReader =
  pending :: string
  rerr :: string
  lastRune :: "string option"
  bufSize :: nat

text \<open>
  What \<^verbatim>\<open>Handle\<close> hands to \<^verbatim>\<open>Encode\<close>: one \<^verbatim>\<open>*Response\<close>, which the encoder writes as a
  JSON object, or the slice \<^verbatim>\<open>[]*Response\<close>, which it writes as a JSON array.
\<close>

datatype document = Object Response | Array "Response list"

text \<open>
  An \<^verbatim>\<open>io.Writer\<close>: the documents written to it so far, each kept as the value that was
  encoded, and the error its \<^verbatim>\<open>Write\<close> fails with, if it fails.
\<close>

record Writer =
  written :: "document list"
  werr :: "string option"

text \<open>
  The functions of \<^verbatim>\<open>unicode/utf8\<close> and \<^verbatim>\<open>encoding/json\<close> are parameters of the model:
  \<^item> \<open>DecodeRune\<close>: \<^verbatim>\<open>utf8.DecodeRune\<close>, the first rune of a byte sequence and its width;
  \<^item> \<open>DecodeRequest\<close>: \<^verbatim>\<open>json.NewDecoder(br).Decode(&req)\<close> for \<^verbatim>\<open>req *Request\<close>, the decode
    error or the pointer decoded (nil for the document \<^verbatim>\<open>null\<close>);
  \<^item> \<open>DecodeRequests\<close>: \<^verbatim>\<open>json.NewDecoder(br).Decode(&rs)\<close> for \<^verbatim>\<open>rs []*Request\<close>;
  \<^item> \<open>MarshalError\<close>: the error, if any, of marshalling a value to JSON.
  Every theorem about the package holds for all of them.
\<close>

record golib =
  DecodeRune :: "string \<Rightarrow> nat \<times> nat"
  DecodeRequest :: "bufioReader \<Rightarrow> string + Request option"
  DecodeRequests :: "bufioReader \<Rightarrow> string + Request option list"
  MarshalError :: "document \<Rightarrow> string option"

abbreviation defaultBufSize :: nat where "defaultBufSize \<equiv> 4096"

definition NewReader :: "Reader \<Rightarrow> bufioReader" where
  "NewReader rd = \<lparr>pending = bytes rd, rerr = err rd, lastRune = None, bufSize = defaultBufSize\<rparr>"

definition Size :: "bufioReader \<Rightarrow> nat" where
  "Size b = bufSize b"

text \<open>
  \<^verbatim>\<open>ReadRune\<close> returns the error of the underlying reader when no byte is left. Otherwise a
  first byte below \<^verbatim>\<open>utf8.RuneSelf\<close> is the rune, of width 1, and any other is decoded by
  \<^verbatim>\<open>utf8.DecodeRune\<close>. The result is the rune, its width and the reader afterwards.
\<close>

definition ReadRune :: "golib \<Rightarrow> bufioReader \<Rightarrow> string + (nat \<times> nat \<times> bufioReader)" where
  "ReadRune L b =
     (case pending b of
        [] \<Rightarrow> Inl (rerr b)
      | c # cs \<Rightarrow>
          (let (r, size) = (if of_char c < (128::nat) then (of_char c, 1) else DecodeRune L (c # cs))
           in Inr (r, size, b\<lparr>pending := drop size (c # cs), lastRune := Some (take size (c # cs))\<rparr>)))"

definition UnreadRune :: "bufioReader \<Rightarrow> string + bufioReader" where
  "UnreadRune b =
     (case lastRune b of
        None \<Rightarrow> Inl ''bufio: invalid use of UnreadRune''
      | Some cs \<Rightarrow> Inr (b\<lparr>pending := cs @ pending b, lastRune := None\<rparr>))"

text \<open>
  \<^verbatim>\<open>json.NewEncoder(w).Encode(v)\<close>: marshal the value, and write the bytes if that
  succeeded. The result is the error returned and the writer afterwards.
\<close>

definition Encode :: "golib \<Rightarrow> Writer \<Rightarrow> document \<Rightarrow> string option \<times> Writer" where
  "Encode L w v =
     (case MarshalError L v of
        Some e \<Rightarrow> (Some e, w)
      | None \<Rightarrow>
          (case werr w of
             Some e \<Rightarrow> (Some e, w)
           | None \<Rightarrow> (None, w\<lparr>written := written w @ [v]\<rparr>)))"


section \<open>Request decoder (parseMethodRequest)\<close>

definition parseMethodRequest :: "golib \<Rightarrow> Reader \<Rightarrow> Error + Request option list" where
  "parseMethodRequest L r =
     (let br = NewReader r in
      if Size br = 0 then
        Inl (newError errCodeParseError (Some (VString ''fail to read the request text: empty'')))
      else
        (case ReadRune L br of
           Inl e \<Rightarrow>
             Inl (newError errCodeParseError
                    (Some (VString (''fail to read the request text: '' @ e))))
         | Inr (f, _, br1) \<Rightarrow>
             (case UnreadRune br1 of
                Inl e \<Rightarrow>
                  Inl (newError errCodeParseError
                         (Some (VString (''fail to read the request text: '' @ e))))
              | Inr br2 \<Rightarrow>
                  if f \<noteq> of_char CHR ''['' then
                    (case DecodeRequest L br2 of
                       Inl e \<Rightarrow> Inl (newError errCodeInvalidRequest (Some (VError e)))
                     | Inr req \<Rightarrow> Inr ([] @ [req]))
                  else
                    (case DecodeRequests L br2 of
                       Inl e \<Rightarrow> Inl (newError errCodeInvalidRequest (Some (VError e)))
                     | Inr rs \<Rightarrow> Inr rs))))"


section \<open>Dispatcher (Manager.Handle)\<close>

text \<open>
  The loop of \<^verbatim>\<open>Handle\<close> over the decoded requests, with the slice \<^verbatim>\<open>resp\<close> it appends to.
\<close>

fun handleLoop ::
  "Manager \<Rightarrow> context \<Rightarrow> nat \<Rightarrow> Request option list \<Rightarrow> Response list \<Rightarrow> abort + Response list" where
  "handleLoop m c now [] resp = Inr resp"
| "handleLoop m c now (r # rq) resp =
     (case execMethod m c now r of
        Inl a \<Rightarrow> Inl a
      | Inr (tResp, now') \<Rightarrow>
          (case r of
             None \<Rightarrow> Inl NilDereference
           | Some req \<Rightarrow>
               handleLoop m c now' rq
                 (if ID req \<noteq> None \<or> Error tResp \<noteq> None then resp @ [tResp] else resp)))"

text \<open>The \<^verbatim>\<open>error\<close> \<^verbatim>\<open>Handle\<close> returns: an \<^verbatim>\<open>*Error\<close> of the package, or the encoder's.\<close>

datatype goerror = RPCError Error | EncodeError string

text \<open>
  \<open>Handle L m c r w\<close> is \<^verbatim>\<open>m.Handle(ctx, r, w)\<close>; the three arguments are \<open>None\<close> when nil.
  The result is the error returned, \<open>None\<close> for nil, and the writer afterwards.
\<close>

definition Handle ::
  "golib \<Rightarrow> Manager \<Rightarrow> context option \<Rightarrow> Reader option \<Rightarrow> Writer option
     \<Rightarrow> abort + (goerror option \<times> Writer option)" where
  "Handle L m c r w =
     (case r of
        None \<Rightarrow>
          Inr (Some (RPCError (newError errCodeInternal
                 (Some (VString ''r io.Reader can't be nil'')))), w)
      | Some rd \<Rightarrow>
          (case w of
             None \<Rightarrow>
               Inr (Some (RPCError (newError errCodeInternal
                      (Some (VString ''w io.Writer can't be nil'')))), w)
           | Some wr \<Rightarrow>
               (case parseMethodRequest L rd of
                  Inl e \<Rightarrow> Inr (Some (RPCError e), w)
                | Inr rq \<Rightarrow>
                    (let c' = (case c of None \<Rightarrow> Background | Some x \<Rightarrow> x) in
                     if length rq = 0 then
                       Inr (Some (RPCError (newError errCodeInvalidRequest
                              (Some (VString ''no methods specified'')))), w)
                     else
                       (case handleLoop m c' 0 rq [] of
                          Inl a \<Rightarrow> Inl a
                        | Inr resp \<Rightarrow>
                            if length resp > 1 then
                              (case Encode L wr (Array resp) of
                                 (e, wr') \<Rightarrow> Inr (map_option EncodeError e, Some wr'))
                            else if length resp = 1 then
                              (case Encode L wr (Object (resp ! 0)) of
                                 (e, wr') \<Rightarrow> Inr (map_option EncodeError e, Some wr'))
                            else Inr (None, w))))))"


section \<open>Notions used to state the properties\<close>

text \<open>
  The responses of per-call dispatch for a decoded batch, each paired with its originating
  request: \<^verbatim>\<open>execMethod\<close> is called on the requests one after the other, as the loop of
  \<^verbatim>\<open>Handle\<close> does, each call starting when the one before has returned.
\<close>

fun perCall ::
  "Manager \<Rightarrow> context \<Rightarrow> nat \<Rightarrow> Request option list \<Rightarrow> abort + (Request \<times> Response) list" where
  "perCall m c now [] = Inr []"
| "perCall m c now (r # rq) =
     (case execMethod m c now r of
        Inl a \<Rightarrow> Inl a
      | Inr (tResp, now') \<Rightarrow>
          (case r of
             None \<Rightarrow> Inl NilDereference
           | Some req \<Rightarrow>
               (case perCall m c now' rq of
                  Inl a \<Rightarrow> Inl a
                | Inr ps \<Rightarrow> Inr ((req, tResp) # ps))))"

text \<open>The request carried an identifier, or the response carries an error.\<close>

definition retained :: "Request \<times> Response \<Rightarrow> bool" where
  "retained p = (ID (fst p) \<noteq> None \<or> Error (snd p) \<noteq> None)"

text \<open>A response carries exactly one of a result and an error.\<close>

definition exactlyOne :: "Response \<Rightarrow> bool" where
  "exactlyOne res = ((Result res \<noteq> None) \<noteq> (Error res \<noteq> None))"

text \<open>A step of a handler that leaves the version and the identifier of the response alone.\<close>

fun keepsHeader :: "step \<Rightarrow> bool" where
  "keepsHeader (Write f) = (\<forall>r. RespVersion (f r) = RespVersion r \<and> RespID (f r) = RespID r)"
| "keepsHeader (Wait d) = True"
| "keepsHeader Hang = True"

definition keepsHeaders :: "Manager \<Rightarrow> bool" where
  "keepsHeaders m = (\<forall>name h rq. methods m name = Some h \<longrightarrow> list_all keepsHeader (h rq))"

text \<open>The time after which a run returns, if it does.\<close>

fun finishes :: "step list \<Rightarrow> nat option" where
  "finishes [] = Some 0"
| "finishes (Write f # ss) = finishes ss"
| "finishes (Wait d # ss) = map_option ((+) d) (finishes ss)"
| "finishes (Hang # ss) = None"

text \<open>What \<^verbatim>\<open>Handle\<close> returns when it returns what \<^verbatim>\<open>Encode\<close> returned.\<close>

definition encodeTo :: "golib \<Rightarrow> Writer \<Rightarrow> document \<Rightarrow> goerror option \<times> Writer option" where
  "encodeTo L w d = (case Encode L w d of (e, w') \<Rightarrow> (map_option EncodeError e, Some w'))"

text \<open>The documents that hold the given responses: none, one object, or one array.\<close>

fun documents :: "Response list \<Rightarrow> document list" where
  "documents [] = []"
| "documents [x] = [Object x]"
| "documents xs = [Array xs]"

text \<open>The first rune of a non-empty byte sequence, as \<^verbatim>\<open>ReadRune\<close> finds it.\<close>

definition firstRune :: "golib \<Rightarrow> string \<Rightarrow> nat" where
  "firstRune L bs =
     (if of_char (hd bs) < (128::nat) then of_char (hd bs) else fst (DecodeRune L bs))"

text \<open>
  The first significant character of a JSON text in the words of the specification, read
  as RFC 8259 uses them: the whitespace around the tokens of a JSON text (space, horizontal
  tab, line feed, carriage return) is insignificant. This is not taken from the code.
\<close>

fun firstSignificant :: "string \<Rightarrow> char option" where
  "firstSignificant [] = None"
| "firstSignificant (c # cs) =
     (if c = CHR '' '' \<or> c = CHR 0x09 \<or> c = CHR 0x0A \<or> c = CHR 0x0D
      then firstSignificant cs else Some c)"


section \<open>Examples: the test suite of the package\<close>

text \<open>
  The handler of the tests, \<^verbatim>\<open>addMethod\<close>: it parses two integers \<^verbatim>\<open>v1\<close> and \<^verbatim>\<open>v2\<close>, sleeps
  ten seconds when their sum is 20, sets an error when it is 1, and sets the sum as the
  result. \<open>unmarshalParams\<close> stands for \<^verbatim>\<open>json.Unmarshal\<close> into its parameter struct, on the
  parameters the examples send.
\<close>

definition unmarshalParams :: "RawMessage \<Rightarrow> int \<times> int \<Rightarrow> string option \<times> (int \<times> int)" where
  \<open>unmarshalParams raw p =
     (if raw = ''{"v1": 10,"v2": 120}'' \<or> raw = ''{"v1":10,"v2":120}'' then (None, (10, 120))
      else if raw = ''{"v1":10,"v2":20}'' then (None, (10, 20))
      else if raw = ''{"v1": 10,"v2": 10}'' then (None, (10, 10))
      else if raw = ''{"v1": 0,"v2": 1}'' then (None, (0, 1))
      else (Some ''unexpected end of JSON input'', p))\<close>

definition addMethod :: Method where
  "addMethod req =
     (case ParseParams unmarshalParams (Some req) (Some (0, 0)) of
        Inr (_, Some e, _) \<Rightarrow> [Write (\<lambda>resp. resp\<lparr>Error := Some e\<rparr>)]
      | Inr (_, None, Some (v1, v2)) \<Rightarrow>
          (let r = v1 + v2 in
           (if r = 20 then [Wait (nat (10 * Second))] else []) @
           (if r = 1
            then [Write (\<lambda>resp. resp\<lparr>Error := Some \<lparr>Code = 1, Message = ''Fake error for test'',
                                                     Data = None\<rparr>\<rparr>)]
            else []) @
           [Write (\<lambda>resp. resp\<lparr>Result := Some (VInt r)\<rparr>)])
      | _ \<Rightarrow> [])"

text \<open>The manager of \<^verbatim>\<open>TestManager\<close>: a timeout of one second, methods \<^verbatim>\<open>add\<close> and \<^verbatim>\<open>sum\<close>.\<close>

definition testManager :: Manager where
  "testManager =
     \<lparr>methods = [''add'' \<mapsto> addMethod, ''sum'' \<mapsto> addMethod], timeout = 1 * Second\<rparr>"

text \<open>Requests of the tests, as \<^verbatim>\<open>encoding/json\<close> decodes them, and two notifications.\<close>

definition reqValid :: Request where
  \<open>reqValid = \<lparr>Version = ''2.0'', Method = ''add'', ID = Some ''"1"'',
                Params = Some ''{"v1": 10,"v2": 120}'', ctx = None\<rparr>\<close>

definition reqTimeout :: Request where
  \<open>reqTimeout = \<lparr>Version = ''2.0'', Method = ''sum'', ID = Some ''"1"'',
                  Params = Some ''{"v1": 10,"v2": 10}'', ctx = None\<rparr>\<close>

definition reqErrorResult :: Request where
  \<open>reqErrorResult = \<lparr>Version = ''2.0'', Method = ''sum'', ID = Some ''"1"'',
                      Params = Some ''{"v1": 0,"v2": 1}'', ctx = None\<rparr>\<close>

definition reqEmptyObject :: Request where
  "reqEmptyObject = \<lparr>Version = '''', Method = '''', ID = None, Params = None, ctx = None\<rparr>"

definition reqBatch1 :: Request where
  \<open>reqBatch1 = \<lparr>Version = ''2.0'', Method = ''add'', ID = Some ''"1"'',
                 Params = Some ''{"v1":10,"v2":120}'', ctx = None\<rparr>\<close>

definition reqBatch2 :: Request where
  \<open>reqBatch2 = \<lparr>Version = ''2.0'', Method = ''sum'', ID = Some ''"2"'',
                 Params = Some ''{"v1":10,"v2":20}'', ctx = None\<rparr>\<close>

definition reqNotify :: Request where
  \<open>reqNotify = \<lparr>Version = ''2.0'', Method = ''add'', ID = None,
                 Params = Some ''{"v1":10,"v2":120}'', ctx = None\<rparr>\<close>

definition reqNotifyUnknown :: Request where
  "reqNotifyUnknown =
     \<lparr>Version = ''2.0'', Method = ''no-method'', ID = None, Params = None, ctx = None\<rparr>"

text \<open>The JSON texts they are decoded from.\<close>

definition docValid :: string where
  \<open>docValid =
     ''{"jsonrpc": "2.0","method": "add","id": "1","params": {"v1": 10,"v2": 120}}''\<close>

definition docEmptyObject :: string where
  "docEmptyObject = ''{}''"

definition docNotify :: string where
  \<open>docNotify = ''{"jsonrpc":"2.0","method":"add","params":{"v1":10,"v2":120}}''\<close>

definition docNotifyUnknown :: string where
  \<open>docNotifyUnknown = ''{"jsonrpc":"2.0","method":"no-method"}''\<close>

definition docBatch :: string where
  \<open>docBatch = ''[{"jsonrpc":"2.0","method":"add","id":"1","params":{"v1":10,"v2":120}},{"jsonrpc":"2.0","method":"sum","id":"2","params":{"v1":10,"v2":20}}]''\<close>

definition docEmptyBatch :: string where
  "docEmptyBatch = ''[]''"

definition docSpaceBatch :: string where
  "docSpaceBatch = '' []''"

text \<open>
  A stand-in for the Go library on these texts. A text of \<open>singles\<close> decodes to its
  request; any other is one of the arrays, which \<^verbatim>\<open>encoding/json\<close> refuses to decode into
  a \<^verbatim>\<open>Request\<close>. A text of \<open>batches\<close> decodes to its requests; any other is one of the
  objects, which it refuses to decode into a slice. Every value is marshalled. The texts
  are ASCII, so that \<open>DecodeRune\<close> is not consulted; it answers \<^verbatim>\<open>utf8.RuneError\<close>.
\<close>

definition singles :: "(string \<times> Request) list" where
  "singles =
     [(docValid, reqValid), (docEmptyObject, reqEmptyObject), (docNotify, reqNotify),
      (docNotifyUnknown, reqNotifyUnknown)]"

definition batches :: "(string \<times> Request list) list" where
  "batches =
     [(docBatch, [reqBatch1, reqBatch2]), (docEmptyBatch, []), (docSpaceBatch, [])]"

definition testlib :: golib where
  "testlib =
     \<lparr>DecodeRune = (\<lambda>bs. (65533, 1)),
      DecodeRequest =
        (\<lambda>b. case map_of singles (pending b) of
                Some r \<Rightarrow> Inr (Some r)
              | None \<Rightarrow>
                  Inl ''json: cannot unmarshal array into Go value of type jrpc2go.Request''),
      DecodeRequests =
        (\<lambda>b. case map_of batches (pending b) of
                Some rs \<Rightarrow> Inr (map Some rs)
              | None \<Rightarrow>
                  Inl ''json: cannot unmarshal object into Go value of type []*jrpc2go.Request''),
      MarshalError = (\<lambda>d. None)\<rparr>"

definition reader :: "string \<Rightarrow> Reader" where
  "reader bs = \<lparr>bytes = bs, err = ''EOF''\<rparr>"

definition buffer :: Writer where
  "buffer = \<lparr>written = [], werr = None\<rparr>"

text \<open>
  The parameter structs of \<^verbatim>\<open>TestRequest_ParseParams\<close>, with \<^verbatim>\<open>json.Unmarshal\<close> into a
  \<^verbatim>\<open>TestValue\<close> on the two texts of that test.
\<close>

definition unmarshalTestValue :: "RawMessage \<Rightarrow> int \<times> int \<Rightarrow> string option \<times> (int \<times> int)" where
  \<open>unmarshalTestValue raw p =
     (if raw = ''{ "V1":10, "V2":10 }'' then (None, (10, 10))
      else (Some ''invalid character 'V' looking for beginning of object key string'', p))\<close>

definition reqTestValue :: Request where
  \<open>reqTestValue = \<lparr>Version = '''', Method = '''', ID = None,
                    Params = Some ''{ "V1":10, "V2":10 }'', ctx = None\<rparr>\<close>

text \<open>
  Two handlers that are not in the tests. \<open>pingMethod\<close> returns at once and sets nothing.
  \<open>eagerMethod\<close> stores its result first and then works for ten seconds.
\<close>

definition pingMethod :: Method where
  "pingMethod req = []"

definition eagerMethod :: Method where
  "eagerMethod req = [Write (\<lambda>resp. resp\<lparr>Result := Some (VInt 20)\<rparr>), Wait (nat (10 * Second))]"

definition reqPing :: Request where
  "reqPing = \<lparr>Version = ''2.0'', Method = ''ping'', ID = Some ''1'', Params = None, ctx = None\<rparr>"

definition pingManager :: Manager where
  "pingManager = \<lparr>methods = [''ping'' \<mapsto> pingMethod], timeout = 10 * Second\<rparr>"

definition eagerManager :: Manager where
  "eagerManager = \<lparr>methods = [''sum'' \<mapsto> eagerMethod], timeout = 1 * Second\<rparr>"


section \<open>Facts about the model\<close>

lemma untilDone_WithTimeout: "\<exists>b. untilDone (WithTimeout c now d) now = Some b"
  by (cases c) simp_all

lemma runFor_header:
  "list_all keepsHeader ss \<Longrightarrow> runFor b ss res = (e, res') \<Longrightarrow>
   RespVersion res' = RespVersion res \<and> RespID res' = RespID res"
proof (induction b ss res arbitrary: e res' rule: runFor.induct)
  case (1 b res)
  then show ?case by (auto split: if_splits)
next
  case (2 b f ss res)
  then show ?case by (auto split: if_splits)
next
  case (3 b d ss res)
  then show ?case by (auto split: if_splits prod.splits)
next
  case (4 b ss res)
  then show ?case by simp
qed

text \<open>Dispatch to a registered handler is the handler's run, cut at some time \<open>b\<close>.\<close>

lemma execMethod_found:
  assumes "Version req = version" and "Method req \<noteq> ''''"
      and "methods m (Method req) = Some h"
  shows "\<exists>b. execMethod m c now (Some req) =
           (case runFor b (h (req\<lparr>ctx := Some (WithTimeout c now (timeout m))\<rparr>))
                   \<lparr>RespVersion = Version req, RespID = ID req, Result = None, Error = None\<rparr> of
              (None, res') \<Rightarrow>
                Inr (res'\<lparr>Error := Some (newError errCodeExecutionTimeout None)\<rparr>, now + b)
            | (Some e, res') \<Rightarrow>
                Inr (if Error res' \<noteq> None then res'\<lparr>Result := None\<rparr> else res', now + e))"
proof -
  obtain b where b: "untilDone (WithTimeout c now (timeout m)) now = Some b"
    using untilDone_WithTimeout by blast
  have "execMethod m c now (Some req) =
           (case runFor b (h (req\<lparr>ctx := Some (WithTimeout c now (timeout m))\<rparr>))
                   \<lparr>RespVersion = Version req, RespID = ID req, Result = None, Error = None\<rparr> of
              (None, res') \<Rightarrow>
                Inr (res'\<lparr>Error := Some (newError errCodeExecutionTimeout None)\<rparr>, now + b)
            | (Some e, res') \<Rightarrow>
                Inr (if Error res' \<noteq> None then res'\<lparr>Result := None\<rparr> else res', now + e))"
    using assms b
    by (simp add: execMethod_def newResponse_def WithContext_def Let_def
             split: option.splits prod.splits)
  then show ?thesis ..
qed

text \<open>A request that is turned away before a handler is found.\<close>

lemma execMethod_rejected:
  assumes "Version req \<noteq> version \<or> Method req = '''' \<or> methods m (Method req) = None"
      and "execMethod m c now (Some req) = Inr (res, now')"
  shows "Error res \<noteq> None \<and> Result res = None \<and> RespVersion res = Version req
         \<and> RespID res = ID req \<and> now' = now"
  using assms
  by (auto simp: execMethod_def newResponse_def split: if_splits)

lemma execMethod_header:
  assumes "execMethod m c now (Some req) = Inr (res, now')" and "keepsHeaders m"
  shows "RespVersion res = Version req \<and> RespID res = ID req"
proof (cases "Version req \<noteq> version \<or> Method req = '''' \<or> methods m (Method req) = None")
  case True
  from execMethod_rejected [OF True assms(1)] show ?thesis by simp
next
  case False
  then obtain h where h: "methods m (Method req) = Some h" by auto
  let ?rq = "req\<lparr>ctx := Some (WithTimeout c now (timeout m))\<rparr>"
  let ?r0 = "\<lparr>RespVersion = Version req, RespID = ID req, Result = None, Error = None\<rparr>"
  from False h execMethod_found [of req m h c now] obtain b where
    eq: "execMethod m c now (Some req) =
           (case runFor b (h ?rq) ?r0 of
              (None, res') \<Rightarrow>
                Inr (res'\<lparr>Error := Some (newError errCodeExecutionTimeout None)\<rparr>, now + b)
            | (Some e, res') \<Rightarrow>
                Inr (if Error res' \<noteq> None then res'\<lparr>Result := None\<rparr> else res', now + e))"
    by auto
  obtain out res' where run: "runFor b (h ?rq) ?r0 = (out, res')"
    by (cases "runFor b (h ?rq) ?r0")
  from assms(2) h have "list_all keepsHeader (h ?rq)" by (simp add: keepsHeaders_def)
  from runFor_header [OF this run] have "RespVersion res' = Version req \<and> RespID res' = ID req"
    by simp
  with eq run assms(1) show ?thesis
    by (cases out) (auto split: if_splits)
qed

lemma execMethod_not_both:
  assumes "execMethod m c now rq = Inr (res, now')"
      and "Error res \<noteq> Some (newError errCodeExecutionTimeout None)"
      and "Error res \<noteq> None"
  shows "Result res = None"
proof (cases rq)
  case None
  with assms(1) show ?thesis by (simp add: execMethod_def newResponse_def)
next
  case (Some req)
  with assms(1) have ex: "execMethod m c now (Some req) = Inr (res, now')" by simp
  show ?thesis
  proof (cases "Version req \<noteq> version \<or> Method req = '''' \<or> methods m (Method req) = None")
    case True
    from execMethod_rejected [OF True ex] show ?thesis by simp
  next
    case False
    then obtain h where h: "methods m (Method req) = Some h" by auto
    let ?rq = "req\<lparr>ctx := Some (WithTimeout c now (timeout m))\<rparr>"
    let ?r0 = "\<lparr>RespVersion = Version req, RespID = ID req, Result = None, Error = None\<rparr>"
    from False h execMethod_found [of req m h c now] obtain b where
      eq: "execMethod m c now (Some req) =
           (case runFor b (h ?rq) ?r0 of
              (None, res') \<Rightarrow>
                Inr (res'\<lparr>Error := Some (newError errCodeExecutionTimeout None)\<rparr>, now + b)
            | (Some e, res') \<Rightarrow>
                Inr (if Error res' \<noteq> None then res'\<lparr>Result := None\<rparr> else res', now + e))"
      by auto
    obtain out res' where run: "runFor b (h ?rq) ?r0 = (out, res')"
      by (cases "runFor b (h ?rq) ?r0")
    with eq ex assms(2,3) show ?thesis
      by (cases out) (auto split: if_splits)
  qed
qed

text \<open>
  Per-call dispatch of a request returns, whatever the handler does: the context it waits
  for has a deadline.
\<close>

lemma execMethod_returns:
  "\<exists>res now'. execMethod m c now (Some req) = Inr (res, now')"
proof -
  obtain b where b: "untilDone (WithTimeout c now (timeout m)) now = Some b"
    using untilDone_WithTimeout by blast
  then show ?thesis
    by (auto simp: execMethod_def newResponse_def WithContext_def Let_def
             split: option.splits prod.splits)
qed

text \<open>
  A handler that does not return before the configured timeout has passed is answered with
  the execution timeout error.
\<close>

lemma runFor_finishes:
  "runFor b ss res = (Some e, res') \<Longrightarrow> finishes ss = Some e \<and> e < b"
proof (induction b ss res arbitrary: e res' rule: runFor.induct)
  case (1 b res)
  then show ?case by (auto split: if_splits)
next
  case (2 b f ss res)
  then show ?case by (auto split: if_splits)
next
  case (3 b d ss res)
  then show ?case by (auto split: if_splits prod.splits)
next
  case (4 b ss res)
  then show ?case by simp
qed

lemma budget_le_timeout:
  "untilDone (WithTimeout c now d) now = Some b \<Longrightarrow> int b \<le> max 0 d"
  by (cases c) auto

lemma late_handler_gets_timeout_error:
  assumes "Version req = version" and "Method req \<noteq> ''''"
      and "methods m (Method req) = Some h"
      and "\<forall>e. finishes (h (req\<lparr>ctx := Some (WithTimeout c now (timeout m))\<rparr>)) = Some e
             \<longrightarrow> timeout m \<le> int e"
      and "execMethod m c now (Some req) = Inr (res, now')"
  shows "Error res = Some (newError errCodeExecutionTimeout None)"
proof -
  let ?rq = "req\<lparr>ctx := Some (WithTimeout c now (timeout m))\<rparr>"
  let ?r0 = "\<lparr>RespVersion = Version req, RespID = ID req, Result = None, Error = None\<rparr>"
  obtain b where b: "untilDone (WithTimeout c now (timeout m)) now = Some b"
    using untilDone_WithTimeout by blast
  obtain out res' where run: "runFor b (h ?rq) ?r0 = (out, res')"
    by (cases "runFor b (h ?rq) ?r0")
  have "out = None"
  proof (cases out)
    case None
    then show ?thesis .
  next
    case (Some e)
    with run runFor_finishes have "finishes (h ?rq) = Some e" and "e < b" by blast+
    with assms(4) budget_le_timeout [OF b] show ?thesis by auto
  qed
  with run b assms(1,2,3,5) show ?thesis
    by (auto simp: execMethod_def newResponse_def WithContext_def Let_def)
qed

text \<open>The loop of \<^verbatim>\<open>Handle\<close> keeps, in order, the per-call responses that are retained.\<close>

lemma handleLoop_perCall:
  "handleLoop m c now rq resp =
     (case perCall m c now rq of
        Inl a \<Rightarrow> Inl a
      | Inr ps \<Rightarrow> Inr (resp @ map snd (filter retained ps)))"
proof (induction rq arbitrary: now resp)
  case Nil
  show ?case by simp
next
  case (Cons r rq)
  show ?case
  proof (cases "execMethod m c now r")
    case (Inl a)
    then show ?thesis by simp
  next
    case (Inr p)
    obtain tResp now' where p: "p = (tResp, now')" by (cases p)
    show ?thesis
    proof (cases r)
      case None
      with Inr p show ?thesis by simp
    next
      case (Some req)
      show ?thesis
        using Inr p Some Cons.IH [of now']
        by (cases "perCall m c now' rq") (simp_all add: retained_def)
    qed
  qed
qed

lemma perCall_requests:
  "perCall m c now rq = Inr ps \<Longrightarrow> map (\<lambda>p. Some (fst p)) ps = rq"
proof (induction rq arbitrary: now ps)
  case Nil
  then show ?case by simp
next
  case (Cons r rq)
  then show ?case
    by (auto split: sum.splits prod.splits option.splits)
qed

lemma perCall_header:
  "perCall m c now rq = Inr ps \<Longrightarrow> keepsHeaders m \<Longrightarrow>
   \<forall>(req, res) \<in> set ps. RespVersion res = Version req \<and> RespID res = ID req"
proof (induction rq arbitrary: now ps)
  case Nil
  then show ?case by simp
next
  case (Cons r rq)
  from Cons.prems(1) obtain req tResp now' ps' where
    r: "r = Some req" and ex: "execMethod m c now (Some req) = Inr (tResp, now')"
    and rest: "perCall m c now' rq = Inr ps'" and ps: "ps = (req, tResp) # ps'"
    by (auto split: sum.splits prod.splits option.splits)
  from execMethod_header [OF ex Cons.prems(2)] Cons.IH [OF rest Cons.prems(2)] ps
  show ?case by simp
qed

lemma Handle_dispatch:
  assumes "parseMethodRequest L rd = Inr rq" and "rq \<noteq> []"
      and "perCall m (case c of None \<Rightarrow> Background | Some x \<Rightarrow> x) 0 rq = Inr ps"
  shows "Handle L m c (Some rd) (Some w) =
           Inr (case map snd (filter retained ps) of
                  [] \<Rightarrow> (None, Some w)
                | [x] \<Rightarrow> encodeTo L w (Object x)
                | x # y # zs \<Rightarrow> encodeTo L w (Array (x # y # zs)))"
proof -
  let ?c = "case c of None \<Rightarrow> Background | Some x \<Rightarrow> x"
  have loop: "handleLoop m ?c 0 rq [] = Inr (map snd (filter retained ps))"
    using assms(3) by (simp add: handleLoop_perCall)
  show ?thesis
  proof (cases "map snd (filter retained ps)")
    case Nil
    with loop assms(1,2) show ?thesis by (simp add: Handle_def)
  next
    case (Cons x xs)
    show ?thesis
    proof (cases xs)
      case Nil
      with Cons loop assms(1,2) show ?thesis
        by (simp add: Handle_def encodeTo_def split: prod.splits)
    next
      case (Cons y zs)
      with \<open>map snd (filter retained ps) = x # xs\<close> loop assms(1,2) show ?thesis
        by (simp add: Handle_def encodeTo_def split: prod.splits)
    qed
  qed
qed

lemma encodeTo_written:
  "encodeTo L w d = (None, Some w') \<Longrightarrow> written w' = written w @ [d]"
  by (auto simp: encodeTo_def Encode_def split: option.splits)

text \<open>Reading the first rune and giving it back leaves the buffered reader as it was.\<close>

lemma peek_restores:
  "pending b = c # cs \<Longrightarrow> lastRune b = None \<Longrightarrow>
   \<exists>f n b1. ReadRune L b = Inr (f, n, b1) \<and> f = firstRune L (c # cs) \<and> UnreadRune b1 = Inr b"
  by (auto simp: ReadRune_def UnreadRune_def firstRune_def Let_def split: prod.splits)

text \<open>Unfolding the examples.\<close>

lemmas dispatch_defs =
  execMethod_def newResponse_def WithContext_def newError_def ParseParams_def

lemmas example_defs =
  testManager_def addMethod_def unmarshalParams_def reqValid_def reqTimeout_def
  reqErrorResult_def reqEmptyObject_def reqBatch1_def reqBatch2_def reqNotify_def
  reqNotifyUnknown_def

lemmas text_defs =
  docValid_def docEmptyObject_def docNotify_def docNotifyUnknown_def docBatch_def
  docEmptyBatch_def docSpaceBatch_def

lemmas library_defs =
  parseMethodRequest_def NewReader_def Size_def ReadRune_def UnreadRune_def Encode_def
  testlib_def singles_def batches_def reader_def buffer_def

text \<open>The tests \<^verbatim>\<open>Valid Request\<close>, \<^verbatim>\<open>Request Timeout\<close> and \<^verbatim>\<open>Response Error with Result\<close>.\<close>

lemma test_valid_request:
  "execMethod testManager Background 0 (Some reqValid) =
     Inr (\<lparr>RespVersion = ''2.0'', RespID = ID reqValid, Result = Some (VInt 130),
           Error = None\<rparr>, 0)"
  by (simp add: dispatch_defs example_defs)

lemma test_request_timeout:
  "execMethod testManager Background 0 (Some reqTimeout) =
     Inr (\<lparr>RespVersion = ''2.0'', RespID = ID reqTimeout, Result = None,
           Error = Some \<lparr>Code = errCodeExecutionTimeout, Message = ''Method execution timeout'',
                         Data = None\<rparr>\<rparr>, 1000000000)"
  by (simp add: dispatch_defs example_defs)

lemma test_error_with_result:
  "execMethod testManager Background 0 (Some reqErrorResult) =
     Inr (\<lparr>RespVersion = ''2.0'', RespID = ID reqErrorResult, Result = None,
           Error = Some \<lparr>Code = 1, Message = ''Fake error for test'', Data = None\<rparr>\<rparr>, 0)"
  by (simp add: dispatch_defs example_defs)

lemma testManager_keepsHeaders: "keepsHeaders testManager"
  by (auto simp: keepsHeaders_def testManager_def addMethod_def Let_def
           split: sum.splits option.splits prod.splits if_splits)

lemma encode_buffer: "Encode testlib buffer d = (None, \<lparr>written = [d], werr = None\<rparr>)"
  by (simp add: Encode_def testlib_def buffer_def)


section \<open>Per-call dispatch: result and error\<close>

text \<open>
  C1, as amended. A response of per-call dispatch whose error is not the execution timeout
  error carries at most one of a result and an error, never both: whenever its error is
  set, by dispatch or by a handler that returned in time, any result the handler also set
  has been cleared. It may carry neither a result nor an error.
\<close>

theorem dispatch_never_result_with_error:
  assumes "execMethod m c now rq = Inr (res, now')"
      and "Error res \<noteq> Some (newError errCodeExecutionTimeout None)"
  shows "\<not> (Result res \<noteq> None \<and> Error res \<noteq> None)"
  using execMethod_not_both [OF assms] by auto

text \<open>
  The test \<^verbatim>\<open>Response Error with Result\<close>: the handler sets an error and then a result, and
  the response carries the error alone.
\<close>

theorem dispatch_never_result_with_error_witness:
  "execMethod testManager Background 0 (Some reqErrorResult) =
     Inr (\<lparr>RespVersion = ''2.0'', RespID = ID reqErrorResult, Result = None,
           Error = Some \<lparr>Code = 1, Message = ''Fake error for test'', Data = None\<rparr>\<rparr>, 0)
   \<and> Some \<lparr>Code = 1, Message = ''Fake error for test'', Data = None\<rparr>
       \<noteq> Some (newError errCodeExecutionTimeout None)
   \<and> \<not> (Result \<lparr>RespVersion = ''2.0'', RespID = ID reqErrorResult, Result = None,
                  Error = Some \<lparr>Code = 1, Message = ''Fake error for test'', Data = None\<rparr>\<rparr> \<noteq> None
          \<and> Error \<lparr>RespVersion = ''2.0'', RespID = ID reqErrorResult, Result = None,
                  Error = Some \<lparr>Code = 1, Message = ''Fake error for test'', Data = None\<rparr>\<rparr> \<noteq> None)"
proof -
  have run: "execMethod testManager Background 0 (Some reqErrorResult) =
     Inr (\<lparr>RespVersion = ''2.0'', RespID = ID reqErrorResult, Result = None,
           Error = Some \<lparr>Code = 1, Message = ''Fake error for test'', Data = None\<rparr>\<rparr>, 0)"
    by (simp add: dispatch_defs example_defs)
  have other: "Error \<lparr>RespVersion = ''2.0'', RespID = ID reqErrorResult, Result = None,
           Error = Some \<lparr>Code = 1, Message = ''Fake error for test'', Data = None\<rparr>\<rparr>
         \<noteq> Some (newError errCodeExecutionTimeout None)"
    by (simp add: newError_def)
  from dispatch_never_result_with_error [OF run other] run other show ?thesis by simp
qed

text \<open>
  The claim as stated fails for a handler that returns without setting anything: the
  response carries neither a result nor an error, not exactly one of them.
\<close>

theorem dispatch_response_with_neither:
  "execMethod pingManager Background 0 (Some reqPing) =
     Inr (\<lparr>RespVersion = ''2.0'', RespID = Some ''1'', Result = None, Error = None\<rparr>, 0)
   \<and> \<not> exactlyOne \<lparr>RespVersion = ''2.0'', RespID = Some ''1'', Result = None, Error = None\<rparr>"
  by (simp add: dispatch_defs pingManager_def pingMethod_def reqPing_def exactlyOne_def)

text \<open>
  C2. A handler that does not return in time must be answered with the execution timeout
  error and no result. Here the handler has stored its result before the deadline: with a
  timeout of one second, \<open>eagerMethod\<close> is cut after one second, and the response carries
  the timeout error together with the result 20.
\<close>

theorem timeout_leaves_result_set:
  "execMethod eagerManager Background 0 (Some reqTimeout) =
     Inr (\<lparr>RespVersion = ''2.0'', RespID = ID reqTimeout, Result = Some (VInt 20),
           Error = Some \<lparr>Code = errCodeExecutionTimeout, Message = ''Method execution timeout'',
                         Data = None\<rparr>\<rparr>, 1000000000)"
  by (simp add: dispatch_defs eagerManager_def eagerMethod_def reqTimeout_def)


section \<open>Per-call dispatch: version and identifier\<close>

text \<open>
  C3, as amended. When \<^verbatim>\<open>Handle\<close> has written its output, the sink holds the retained
  per-call responses, and every per-call response carries the protocol version string of
  its originating request and that request's identifier (none when the request carried
  none), provided no handler overwrites these two fields. So the response to a request of
  version "2.0" has version "2.0", and a request of another version is answered under
  that other version.
\<close>

theorem written_responses_echo_requests:
  assumes "parseMethodRequest L rd = Inr rq"
      and "Handle L m c (Some rd) (Some w) = Inr (None, Some w')"
      and "keepsHeaders m"
  shows "\<exists>ps. perCall m (case c of None \<Rightarrow> Background | Some x \<Rightarrow> x) 0 rq = Inr ps
           \<and> map (\<lambda>p. Some (fst p)) ps = rq
           \<and> written w' = written w @ documents (map snd (filter retained ps))
           \<and> (\<forall>(req, res) \<in> set ps. RespVersion res = Version req \<and> RespID res = ID req)"
proof -
  let ?c = "case c of None \<Rightarrow> Background | Some x \<Rightarrow> x"
  from assms(1,2) have ne: "rq \<noteq> []"
    by (auto simp: Handle_def)
  from assms(1,2) ne obtain resp where "handleLoop m ?c 0 rq [] = Inr resp"
    by (auto simp: Handle_def split: sum.splits)
  then obtain ps where ps: "perCall m ?c 0 rq = Inr ps"
    by (auto simp: handleLoop_perCall split: sum.splits)
  have wr: "written w' = written w @ documents (map snd (filter retained ps))"
  proof (cases "map snd (filter retained ps)")
    case Nil
    with Handle_dispatch [OF assms(1) ne ps, of w] assms(2) show ?thesis by simp
  next
    case (Cons x xs)
    show ?thesis
    proof (cases xs)
      case Nil
      with Cons Handle_dispatch [OF assms(1) ne ps, of w] assms(2)
      have "encodeTo L w (Object x) = (None, Some w')" by simp
      from encodeTo_written [OF this] Cons Nil show ?thesis by simp
    next
      case (Cons y zs)
      with \<open>map snd (filter retained ps) = x # xs\<close>
        Handle_dispatch [OF assms(1) ne ps, of w] assms(2)
      have "encodeTo L w (Array (x # y # zs)) = (None, Some w')" by simp
      from encodeTo_written [OF this] Cons \<open>map snd (filter retained ps) = x # xs\<close>
      show ?thesis by simp
    qed
  qed
  from ps perCall_requests [OF ps] wr perCall_header [OF ps assms(3)] show ?thesis by blast
qed


text \<open>
  The test \<^verbatim>\<open>Valid Request\<close>: one request of version "2.0" with the identifier "1", and
  one object written that carries both.
\<close>

theorem written_responses_echo_requests_witness:
  "parseMethodRequest testlib (reader docValid) = Inr [Some reqValid]
   \<and> Handle testlib testManager (Some Background) (Some (reader docValid)) (Some buffer) =
       Inr (None, Some \<lparr>written = [Object \<lparr>RespVersion = ''2.0'', RespID = ID reqValid,
                                            Result = Some (VInt 130), Error = None\<rparr>],
                        werr = None\<rparr>)
   \<and> keepsHeaders testManager
   \<and> (\<exists>ps. perCall testManager Background 0 [Some reqValid] = Inr ps
           \<and> map (\<lambda>p. Some (fst p)) ps = [Some reqValid]
           \<and> [Object \<lparr>RespVersion = ''2.0'', RespID = ID reqValid,
                        Result = Some (VInt 130), Error = None\<rparr>]
               = documents (map snd (filter retained ps))
           \<and> (\<forall>(req, res) \<in> set ps. RespVersion res = Version req \<and> RespID res = ID req))"
proof -
  have p: "parseMethodRequest testlib (reader docValid) = Inr [Some reqValid]"
    by (simp add: library_defs text_defs)
  have h: "Handle testlib testManager (Some Background) (Some (reader docValid)) (Some buffer) =
       Inr (None, Some \<lparr>written = [Object \<lparr>RespVersion = ''2.0'', RespID = ID reqValid,
                                            Result = Some (VInt 130), Error = None\<rparr>],
                        werr = None\<rparr>)"
    by (simp add: Handle_def p dispatch_defs example_defs encode_buffer)
  from written_responses_echo_requests [OF p h testManager_keepsHeaders] p h
    testManager_keepsHeaders
  show ?thesis by (simp add: buffer_def)
qed

text \<open>
  The claim as stated fails on the test \<^verbatim>\<open>Empty Request Object\<close>: the request \<^verbatim>\<open>{}\<close> has
  the empty version string, and the response written carries the empty string, not "2.0".
\<close>

theorem empty_object_answered_under_its_version:
  "Handle testlib testManager (Some Background) (Some (reader docEmptyObject)) (Some buffer) =
     Inr (None, Some \<lparr>written = [Object \<lparr>RespVersion = '''', RespID = None, Result = None,
                         Error = Some \<lparr>Code = errCodeInvalidRPCVersion,
                                       Message = ''JSON RPC Version must be 2.0'',
                                       Data = Some (VString '''')\<rparr>\<rparr>],
                      werr = None\<rparr>)
   \<and> '''' \<noteq> version"
  by (simp add: Handle_def library_defs text_defs dispatch_defs reqEmptyObject_def)


section \<open>Request decoder\<close>

text \<open>
  C4, as amended. The decoder looks at the first character of the stream, whitespace
  included, and leaves it in the stream: if it is the array-open marker, the input is
  decoded as an array of requests, otherwise as one request, which is wrapped in a
  one-element sequence. A stream that ends or fails before it delivers a byte yields a
  parse error (-32700) with the reader's error in its data, and a failure of either
  decoding yields an invalid request error (-32600) with the decode error as its data.
\<close>

theorem parseMethodRequest_peeks_first_rune:
  "parseMethodRequest L r =
     (if bytes r = [] then
        Inl \<lparr>Code = - 32700, Message = ''Parse error'',
             Data = Some (VString (''fail to read the request text: '' @ err r))\<rparr>
      else if firstRune L (bytes r) = of_char CHR ''['' then
        (case DecodeRequests L (NewReader r) of
           Inl e \<Rightarrow> Inl \<lparr>Code = - 32600, Message = ''Invalid Request'', Data = Some (VError e)\<rparr>
         | Inr rs \<Rightarrow> Inr rs)
      else
        (case DecodeRequest L (NewReader r) of
           Inl e \<Rightarrow> Inl \<lparr>Code = - 32600, Message = ''Invalid Request'', Data = Some (VError e)\<rparr>
         | Inr req \<Rightarrow> Inr [req]))"
proof (cases "bytes r")
  case Nil
  then show ?thesis
    by (simp add: parseMethodRequest_def NewReader_def Size_def ReadRune_def newError_def)
next
  case (Cons c cs)
  then have "pending (NewReader r) = c # cs" and "lastRune (NewReader r) = None"
    by (simp_all add: NewReader_def)
  from peek_restores [OF this, of L] obtain f n b1 where
    rr: "ReadRune L (NewReader r) = Inr (f, n, b1)" and f: "f = firstRune L (c # cs)"
    and ur: "UnreadRune b1 = Inr (NewReader r)"
    by blast
  have sz: "Size (NewReader r) \<noteq> 0" by (simp add: Size_def NewReader_def)
  show ?thesis
    using Cons rr f ur sz
    by (simp add: parseMethodRequest_def Let_def newError_def split: sum.splits)
qed

text \<open>The batch of the test \<^verbatim>\<open>Valid Batch Request\<close>, and the empty stream.\<close>

theorem parseMethodRequest_peeks_first_rune_witness:
  "parseMethodRequest testlib (reader docBatch) = Inr [Some reqBatch1, Some reqBatch2]
   \<and> parseMethodRequest testlib (reader docValid) = Inr [Some reqValid]
   \<and> parseMethodRequest testlib (reader '''') =
       Inl \<lparr>Code = - 32700, Message = ''Parse error'',
            Data = Some (VString ''fail to read the request text: EOF'')\<rparr>"
  using parseMethodRequest_peeks_first_rune [of testlib "reader docBatch"]
    parseMethodRequest_peeks_first_rune [of testlib "reader docValid"]
    parseMethodRequest_peeks_first_rune [of testlib "reader ''''"]
  by (simp add: firstRune_def NewReader_def testlib_def singles_def batches_def reader_def
        text_defs)

text \<open>
  The claim as stated fails when whitespace comes first: in the text \<^verbatim>\<open> []\<close> the first
  significant character is the array-open marker and the text decodes as an array, the
  empty batch; but the decoder looks at the space, decodes one request, and reports the
  failure of that.
\<close>

theorem leading_space_batch_rejected:
  "firstSignificant docSpaceBatch = Some CHR ''[''
   \<and> DecodeRequests testlib (NewReader (reader docSpaceBatch)) = Inr []
   \<and> parseMethodRequest testlib (reader docSpaceBatch) =
       Inl \<lparr>Code = - 32600, Message = ''Invalid Request'',
            Data = Some (VError
              ''json: cannot unmarshal array into Go value of type jrpc2go.Request'')\<rparr>"
  by (simp add: library_defs text_defs newError_def)


section \<open>Dispatcher\<close>

text \<open>
  C5. Of the per-call responses of a decoded batch, \<^verbatim>\<open>Handle\<close> keeps for output, in order,
  exactly those whose request carried an identifier or that carry an error. So for a
  single notification nothing is written and nil is returned when the response carries no
  error, and the response is encoded as one object when it carries one.
\<close>

theorem responses_retained_iff_id_or_error:
  "handleLoop m c now rq resp =
     (case perCall m c now rq of
        Inl a \<Rightarrow> Inl a
      | Inr ps \<Rightarrow> Inr (resp @ map snd (filter retained ps)))
   \<and> (parseMethodRequest L rd = Inr [Some req] \<longrightarrow> ID req = None \<longrightarrow>
        execMethod m (case c' of None \<Rightarrow> Background | Some x \<Rightarrow> x) 0 (Some req) = Inr (res, t) \<longrightarrow>
        Handle L m c' (Some rd) (Some w) =
          Inr (if Error res = None then (None, Some w) else encodeTo L w (Object res)))"
proof (intro conjI impI)
  show "handleLoop m c now rq resp =
     (case perCall m c now rq of
        Inl a \<Rightarrow> Inl a
      | Inr ps \<Rightarrow> Inr (resp @ map snd (filter retained ps)))"
    by (rule handleLoop_perCall)
next
  let ?c = "case c' of None \<Rightarrow> Background | Some x \<Rightarrow> x"
  assume p: "parseMethodRequest L rd = Inr [Some req]" and i: "ID req = None"
    and e: "execMethod m ?c 0 (Some req) = Inr (res, t)"
  from e have "perCall m ?c 0 [Some req] = Inr [(req, res)]" by simp
  from Handle_dispatch [OF p _ this, of w] i
  show "Handle L m c' (Some rd) (Some w) =
          Inr (if Error res = None then (None, Some w) else encodeTo L w (Object res))"
    by (simp add: retained_def)
qed

text \<open>
  A notification for \<^verbatim>\<open>add\<close> succeeds and leaves the sink empty; a notification for a
  method that is not registered is answered with the error.
\<close>

theorem responses_retained_iff_id_or_error_witness:
  "Handle testlib testManager (Some Background) (Some (reader docNotify)) (Some buffer) =
     Inr (None, Some buffer)
   \<and> Handle testlib testManager (Some Background) (Some (reader docNotifyUnknown)) (Some buffer) =
       Inr (None, Some \<lparr>written = [Object \<lparr>RespVersion = ''2.0'', RespID = None, Result = None,
                           Error = Some \<lparr>Code = errCodeMethodNotFound,
                                         Message = ''Method not found'',
                                         Data = Some (VString ''no-method'')\<rparr>\<rparr>],
                        werr = None\<rparr>)"
proof -
  have p1: "parseMethodRequest testlib (reader docNotify) = Inr [Some reqNotify]"
    by (simp add: library_defs text_defs)
  have i1: "ID reqNotify = None" by (simp add: reqNotify_def)
  have e1: "execMethod testManager (case Some Background of None \<Rightarrow> Background | Some x \<Rightarrow> x) 0
              (Some reqNotify) =
            Inr (\<lparr>RespVersion = ''2.0'', RespID = None, Result = Some (VInt 130),
                  Error = None\<rparr>, 0)"
    by (simp add: dispatch_defs example_defs)
  have p2: "parseMethodRequest testlib (reader docNotifyUnknown) = Inr [Some reqNotifyUnknown]"
    by (simp add: library_defs text_defs)
  have i2: "ID reqNotifyUnknown = None" by (simp add: reqNotifyUnknown_def)
  have e2: "execMethod testManager (case Some Background of None \<Rightarrow> Background | Some x \<Rightarrow> x) 0
              (Some reqNotifyUnknown) =
            Inr (\<lparr>RespVersion = ''2.0'', RespID = None, Result = None,
                   Error = Some \<lparr>Code = errCodeMethodNotFound, Message = ''Method not found'',
                                 Data = Some (VString ''no-method'')\<rparr>\<rparr>, 0)"
    by (simp add: dispatch_defs example_defs)
  from responses_retained_iff_id_or_error
         [where L = testlib and rd = "reader docNotify" and req = reqNotify
            and m = testManager and c' = "Some Background" and w = buffer]
       p1 i1 e1
  have a: "Handle testlib testManager (Some Background) (Some (reader docNotify)) (Some buffer) =
     Inr (None, Some buffer)"
    by simp
  from responses_retained_iff_id_or_error
         [where L = testlib and rd = "reader docNotifyUnknown" and req = reqNotifyUnknown
            and m = testManager and c' = "Some Background" and w = buffer]
       p2 i2 e2
  have b: "Handle testlib testManager (Some Background) (Some (reader docNotifyUnknown))
             (Some buffer) =
       Inr (None, Some \<lparr>written = [Object \<lparr>RespVersion = ''2.0'', RespID = None, Result = None,
                           Error = Some \<lparr>Code = errCodeMethodNotFound,
                                         Message = ''Method not found'',
                                         Data = Some (VString ''no-method'')\<rparr>\<rparr>],
                        werr = None\<rparr>)"
    by (simp add: encodeTo_def encode_buffer)
  from a b show ?thesis by simp
qed


text \<open>
  C6. After filtering, \<^verbatim>\<open>Handle\<close> writes nothing and returns nil when no response is
  retained, encodes the response itself, a single object, when exactly one is retained,
  and encodes the slice of responses, an array, when two or more are retained. The
  retained responses are in the order of their requests: the per-call responses \<open>ps\<close>
  follow the decoded requests, and filtering keeps their order.
\<close>

theorem Handle_encodes_by_count:
  assumes "parseMethodRequest L rd = Inr rq" and "rq \<noteq> []"
      and "perCall m (case c of None \<Rightarrow> Background | Some x \<Rightarrow> x) 0 rq = Inr ps"
  shows "map (\<lambda>p. Some (fst p)) ps = rq
       \<and> Handle L m c (Some rd) (Some w) =
           Inr (case map snd (filter retained ps) of
                  [] \<Rightarrow> (None, Some w)
                | [x] \<Rightarrow> encodeTo L w (Object x)
                | x # y # zs \<Rightarrow> encodeTo L w (Array (x # y # zs)))"
  using perCall_requests [OF assms(3)] Handle_dispatch [OF assms] by simp

text \<open>The test \<^verbatim>\<open>Valid Batch Request\<close>: two requests, and one array of two responses.\<close>

theorem Handle_encodes_by_count_witness:
  "parseMethodRequest testlib (reader docBatch) = Inr [Some reqBatch1, Some reqBatch2]
   \<and> [Some reqBatch1, Some reqBatch2] \<noteq> []
   \<and> perCall testManager Background 0 [Some reqBatch1, Some reqBatch2] =
       Inr [(reqBatch1, \<lparr>RespVersion = ''2.0'', RespID = ID reqBatch1,
                          Result = Some (VInt 130), Error = None\<rparr>),
            (reqBatch2, \<lparr>RespVersion = ''2.0'', RespID = ID reqBatch2,
                          Result = Some (VInt 30), Error = None\<rparr>)]
   \<and> Handle testlib testManager None (Some (reader docBatch)) (Some buffer) =
       Inr (None, Some \<lparr>written =
              [Array [\<lparr>RespVersion = ''2.0'', RespID = ID reqBatch1,
                        Result = Some (VInt 130), Error = None\<rparr>,
                      \<lparr>RespVersion = ''2.0'', RespID = ID reqBatch2,
                        Result = Some (VInt 30), Error = None\<rparr>]],
              werr = None\<rparr>)"
proof -
  have p: "parseMethodRequest testlib (reader docBatch) = Inr [Some reqBatch1, Some reqBatch2]"
    by (simp add: library_defs text_defs)
  have n: "[Some reqBatch1, Some reqBatch2] \<noteq> []" by simp
  have c: "perCall testManager (case None of None \<Rightarrow> Background | Some x \<Rightarrow> x) 0
             [Some reqBatch1, Some reqBatch2] =
       Inr [(reqBatch1, \<lparr>RespVersion = ''2.0'', RespID = ID reqBatch1,
                          Result = Some (VInt 130), Error = None\<rparr>),
            (reqBatch2, \<lparr>RespVersion = ''2.0'', RespID = ID reqBatch2,
                          Result = Some (VInt 30), Error = None\<rparr>)]"
    by (simp add: dispatch_defs example_defs)
  from Handle_encodes_by_count [OF p n c, of buffer] p c show ?thesis
    by (simp add: retained_def encodeTo_def encode_buffer reqBatch1_def reqBatch2_def)
qed

text \<open>
  C7. A request whose version string is not "2.0" is answered at once with the invalid
  version error (-32001), whose data is that version string. The answer is the same
  whatever the manager holds, so that no method is looked up and no handler runs, and it is
  given at the instant of the call.
\<close>

theorem version_mismatch_rejected_first:
  "Version req \<noteq> version \<Longrightarrow>
   execMethod m c now (Some req) =
     Inr (\<lparr>RespVersion = Version req, RespID = ID req, Result = None,
           Error = Some \<lparr>Code = - 32001, Message = ''JSON RPC Version must be 2.0'',
                         Data = Some (VString (Version req))\<rparr>\<rparr>, now)"
  by (simp add: execMethod_def newResponse_def newError_def)

text \<open>A request of version "1.0" for a method that is not registered.\<close>

theorem version_mismatch_rejected_first_witness:
  "Version (reqNotifyUnknown\<lparr>Version := ''1.0''\<rparr>) \<noteq> version
   \<and> methods testManager (Method (reqNotifyUnknown\<lparr>Version := ''1.0''\<rparr>)) = None
   \<and> execMethod testManager Background 0 (Some (reqNotifyUnknown\<lparr>Version := ''1.0''\<rparr>)) =
       Inr (\<lparr>RespVersion = ''1.0'', RespID = None, Result = None,
             Error = Some \<lparr>Code = - 32001, Message = ''JSON RPC Version must be 2.0'',
                           Data = Some (VString ''1.0'')\<rparr>\<rparr>, 0)"
proof -
  have v: "Version (reqNotifyUnknown\<lparr>Version := ''1.0''\<rparr>) \<noteq> version" by simp
  from version_mismatch_rejected_first [OF v, of testManager Background 0] show ?thesis
    by (simp add: reqNotifyUnknown_def testManager_def)
qed

text \<open>
  C8. When the input decodes to an empty sequence of requests, \<^verbatim>\<open>Handle\<close> leaves the sink
  as it was and returns the invalid request error (-32600) with the data
  "no methods specified".
\<close>

theorem empty_batch_rejected:
  "parseMethodRequest L rd = Inr [] \<Longrightarrow>
   Handle L m c (Some rd) (Some w) =
     Inr (Some (RPCError \<lparr>Code = - 32600, Message = ''Invalid Request'',
                           Data = Some (VString ''no methods specified'')\<rparr>), Some w)"
  by (simp add: Handle_def newError_def)

text \<open>The test \<^verbatim>\<open>Empty Batch Request Object\<close>.\<close>

theorem empty_batch_rejected_witness:
  "parseMethodRequest testlib (reader docEmptyBatch) = Inr []
   \<and> Handle testlib testManager (Some Background) (Some (reader docEmptyBatch)) (Some buffer) =
       Inr (Some (RPCError \<lparr>Code = - 32600, Message = ''Invalid Request'',
                             Data = Some (VString ''no methods specified'')\<rparr>), Some buffer)"
proof -
  have p: "parseMethodRequest testlib (reader docEmptyBatch) = Inr []"
    by (simp add: library_defs text_defs)
  from empty_batch_rejected [OF p, of testManager "Some Background" buffer] p
  show ?thesis by simp
qed


section \<open>Registration\<close>

text \<open>
  C9. \<^verbatim>\<open>Add\<close> panics exactly when the name is empty or the handler is nil. Otherwise it
  records the handler under the name and leaves the rest of the builder as it was, the
  manager built has the handler under that name, and a second registration under the same
  name replaces the first.
\<close>

theorem Add_panics_iff_invalid:
  "((\<exists>a. Add mb name h = Inl a) \<longleftrightarrow> (name = '''' \<or> h = None))
   \<and> (name \<noteq> '''' \<longrightarrow>
        Add mb name (Some f) = Inr (mb\<lparr>mb_methods := (mb_methods mb)(name \<mapsto> f)\<rparr>)
        \<and> methods (Build (mb\<lparr>mb_methods := (mb_methods mb)(name \<mapsto> f)\<rparr>)) name = Some f
        \<and> Add (mb\<lparr>mb_methods := (mb_methods mb)(name \<mapsto> f)\<rparr>) name (Some g) =
            Inr (mb\<lparr>mb_methods := (mb_methods mb)(name \<mapsto> g)\<rparr>))"
  by (auto simp: Add_def Build_def)

text \<open>The three cases of \<^verbatim>\<open>TestManagerBuilder_Add\<close>, and a second registration.\<close>

theorem Add_panics_iff_invalid_witness:
  "Add NewManagerBuilder ''add'' (Some addMethod) =
     Inr (NewManagerBuilder\<lparr>mb_methods := [''add'' \<mapsto> addMethod]\<rparr>)
   \<and> (\<exists>a. Add NewManagerBuilder '''' (Some addMethod) = Inl a)
   \<and> (\<exists>a. Add NewManagerBuilder ''methodX'' None = Inl a)
   \<and> Add (NewManagerBuilder\<lparr>mb_methods := [''add'' \<mapsto> addMethod]\<rparr>) ''add'' (Some pingMethod) =
       Inr (NewManagerBuilder\<lparr>mb_methods := [''add'' \<mapsto> pingMethod]\<rparr>)"
  using Add_panics_iff_invalid [of NewManagerBuilder "''add''" "Some addMethod" addMethod pingMethod]
    Add_panics_iff_invalid [of NewManagerBuilder "''''" "Some addMethod" addMethod pingMethod]
    Add_panics_iff_invalid [of NewManagerBuilder "''methodX''" None addMethod pingMethod]
  by (simp add: NewManagerBuilder_def)


section \<open>Parameters\<close>

text \<open>
  C10. On a request, \<^verbatim>\<open>ParseParams\<close> returns. It returns an error exactly when the target
  is nil, the request has no parameters, or decoding the parameters into the target fails,
  and the error has the invalid parameters code (-32602). When it returns nil, the target
  holds what decoding the parameters left in it. The request is left as it was.
\<close>

theorem ParseParams_error_iff:
  "\<exists>e v'. ParseParams U (Some req) v = Inr (Some req, e, v')
      \<and> (e \<noteq> None \<longleftrightarrow>
           (v = None \<or> Params req = None
            \<or> (\<exists>x raw. v = Some x \<and> Params req = Some raw \<and> fst (U raw x) \<noteq> None)))
      \<and> (\<forall>x. e = Some x \<longrightarrow> Code x = - 32602)
      \<and> (e = None \<longrightarrow>
           (\<exists>x raw. v = Some x \<and> Params req = Some raw \<and> v' = Some (snd (U raw x))))"
  by (auto simp: ParseParams_def newError_def split: option.splits prod.splits)

text \<open>The test \<^verbatim>\<open>params is valid\<close> of \<^verbatim>\<open>TestRequest_ParseParams\<close>, and a nil target.\<close>

theorem ParseParams_error_iff_witness:
  "ParseParams unmarshalTestValue (Some reqTestValue) (Some (0, 0)) =
     Inr (Some reqTestValue, None, Some (10, 10))
   \<and> (\<exists>e. ParseParams unmarshalTestValue (Some reqTestValue) None =
              Inr (Some reqTestValue, Some e, None) \<and> Code e = - 32602)"
  using ParseParams_error_iff [of unmarshalTestValue reqTestValue "Some (0, 0)"]
    ParseParams_error_iff [of unmarshalTestValue reqTestValue None]
  by (auto simp: ParseParams_def newError_def unmarshalTestValue_def reqTestValue_def)


end
